theory Spec2Isabelle
  imports Complex_Main "HOL-Library.AList" "HOL-Library.Log_Nat"
begin

section \<open>Python values used by \<open>converter.py\<close>\<close>

text \<open>
  The exceptions that the functions of \<open>converter.py\<close> can raise. \<open>DateError\<close> is the
  class the module declares; \<open>ValueError\<close> carries the message of the \<open>raise\<close>
  statement (for an exception raised by the Python library, the head of the library's
  message). \<open>SystemExit\<close> is what \<open>exit(1)\<close> raises.
\<close>

datatype py_error =
    DateError string
  | ValueError string
  | TypeError
  | KeyError
  | ZeroDivisionError
  | OverflowError
  | SystemExit nat

text \<open>
  A Python \<open>str\<close> is a list of characters, one per code point; \<open>len\<close> is
  \<^const>\<open>length\<close>. The characters of the model are the code points 0 to 255. Of
  these, \<open>int\<close> drops as whitespace around a number the six ASCII characters tab,
  line feed, vertical tab, form feed, carriage return and space, and the two
  characters U+0085 and U+00A0; the separators U+001C to U+001F are not dropped.
\<close>

definition py_isspace :: "char \<Rightarrow> bool" where
  "py_isspace c \<longleftrightarrow>
     (of_char c :: int) \<in> {9, 10, 11, 12, 13, 32, 133, 160}"

definition py_isdigit :: "char \<Rightarrow> bool" where
  "py_isdigit c \<longleftrightarrow> 48 \<le> (of_char c :: int) \<and> (of_char c :: int) \<le> 57"

definition digit_value :: "char \<Rightarrow> int" where
  "digit_value c = (of_char c :: int) - 48"

definition py_strip :: "string \<Rightarrow> string" where
  "py_strip s = rev (dropWhile py_isspace (rev (dropWhile py_isspace s)))"

text \<open>
  The digits of an integer literal, as \<open>int(s)\<close> reads them in base 10: decimal digits,
  with single underscores allowed between two digits (Python 3.6 and later). The flag
  says whether the previous character was a digit.
\<close>

fun py_digits :: "int \<Rightarrow> bool \<Rightarrow> string \<Rightarrow> int option" where
  "py_digits acc prev [] = (if prev then Some acc else None)"
| "py_digits acc prev (c # cs) =
     (if py_isdigit c then py_digits (10 * acc + digit_value c) True cs
      else if c = CHR ''_'' \<and> prev then py_digits acc False cs
      else None)"

text \<open>
  \<open>int(s)\<close> for a string: surrounding whitespace is dropped, then an optional sign,
  then the digits. \<open>None\<close> stands for the \<open>ValueError\<close> that \<open>int\<close> raises.
\<close>

definition py_int :: "string \<Rightarrow> int option" where
  "py_int s =
     (case py_strip s of
        [] \<Rightarrow> None
      | c # cs \<Rightarrow>
          if c = CHR ''+'' then py_digits 0 False cs
          else if c = CHR ''-'' then map_option uminus (py_digits 0 False cs)
          else py_digits 0 False (c # cs))"

text \<open>\<open>str(n)\<close> for an integer: its decimal digits, with a minus sign when negative.\<close>

definition digit_char :: "int \<Rightarrow> char" where
  "digit_char d = char_of (48 + d)"

function str_digits :: "int \<Rightarrow> string" where
  "str_digits n = (if n < 10 then [digit_char n] else str_digits (n div 10) @ [digit_char (n mod 10)])"
  by pat_completeness auto
termination
  by (relation "measure nat") auto

declare str_digits.simps [simp del]

definition py_str :: "int \<Rightarrow> string" where
  "py_str i = (if i < 0 then CHR ''-'' # str_digits (- i) else str_digits i)"

text \<open>\<open>s.split(sep)\<close> for a separator of one character.\<close>

fun py_split :: "char \<Rightarrow> string \<Rightarrow> string list" where
  "py_split sep [] = [[]]"
| "py_split sep (c # cs) =
     (if c = sep then [] # py_split sep cs
      else (case py_split sep cs of
              [] \<Rightarrow> [[c]]
            | p # ps \<Rightarrow> (c # p) # ps))"

section \<open>The \<open>date\<close> setter of \<open>Converter\<close>\<close>

text \<open>
  The body of the \<open>try\<close> block of the setter. \<open>current_year\<close> is
  \<open>datetime.datetime.now().year\<close>. Unpacking the split fields into the named tuple
  \<open>(day, month, year)\<close> raises \<open>TypeError\<close> unless there are exactly three of them.
  The result is the \<open>"-".join\<close> of the raw fields of the \<open>else\<close> branch.
\<close>

definition check_date :: "int \<Rightarrow> string \<Rightarrow> py_error + string" where
  "check_date current_year date =
     (if length date \<noteq> 10
      then Inl (DateError ''Invalid date format: Date must be in DD/MM/YYY format.'')
      else
        (case py_split CHR ''/'' date of
           [pday, pmonth, pyear] \<Rightarrow>
             (case py_int pyear of
                None \<Rightarrow> Inl (ValueError ''invalid literal for int() with base 10'')
              | Some year \<Rightarrow>
             (case py_int pmonth of
                None \<Rightarrow> Inl (ValueError ''invalid literal for int() with base 10'')
              | Some month \<Rightarrow>
             (case py_int pday of
                None \<Rightarrow> Inl (ValueError ''invalid literal for int() with base 10'')
              | Some day \<Rightarrow>
                  if \<not> (2000 \<le> year \<and> year \<le> current_year)
                  then Inl (DateError (''Invalid date format: Year must be between 2000 and ''
                                   @ py_str current_year @ ''.''))
                  else if \<not> (1 \<le> month \<and> month \<le> 12)
                  then Inl (DateError ''Invalid date format: Month must be between 01 and 12.'')
                  else if month = 2 \<and> day > 28 \<and>
                          \<not> (day = 29 \<and> year \<in> set [yr \<leftarrow> [2000 .. year - 1]. yr mod 4 = 0])
                  then Inl (DateError ''Invalid date format: Day out of range.'')
                  else if \<not> (1 \<le> day \<and> day \<le> 31)
                  then Inl (DateError ''Invalid date format: Day out of range.'')
                  else if day = 31 \<and> month \<notin> {1, 3, 5, 7, 8, 10, 12}
                  then Inl (DateError ''Invalid date format: Day out of range.'')
                  else Inr (pyear @ ''-'' @ pmonth @ ''-'' @ pday))))
         | _ \<Rightarrow> Inl TypeError))"

text \<open>The exceptions named by the \<open>except\<close> clause of the setter.\<close>

fun date_handled :: "py_error \<Rightarrow> bool" where
  "date_handled (DateError _) = True"
| "date_handled (ValueError _) = True"
| "date_handled TypeError = True"
| "date_handled _ = False"

text \<open>
  The setter: \<open>None\<close> gives \<open>"latest"\<close> at once; an exception of the three handled
  classes leaves \<open>new_date\<close> at \<open>"latest"\<close>; any other exception would leave the
  setter. The result \<open>Inr s\<close> is the value stored in \<open>self.__date\<close>.
\<close>

definition date_setter :: "int \<Rightarrow> string option \<Rightarrow> py_error + string" where
  "date_setter current_year date =
     (case date of
        None \<Rightarrow> Inr ''latest''
      | Some d \<Rightarrow>
          (case check_date current_year d of
             Inl err \<Rightarrow> if date_handled err then Inr ''latest'' else Inl err
           | Inr new_date \<Rightarrow> Inr new_date))"

section \<open>Calendar dates of the \<open>datetime\<close> library\<close>

text \<open>The three fields of a \<open>datetime\<close> that \<open>get_rates\<close> compares.\<close>

record date =
  year :: int
  month :: int
  day :: int

definition is_leap :: "int \<Rightarrow> bool" where
  "is_leap y \<longleftrightarrow> y mod 4 = 0 \<and> (y mod 100 \<noteq> 0 \<or> y mod 400 = 0)"

definition days_in_month :: "int \<Rightarrow> int \<Rightarrow> int" where
  "days_in_month y m =
     (if m = 2 then (if is_leap y then 29 else 28)
      else if m \<in> {4, 6, 9, 11} then 30 else 31)"

text \<open>
  \<open>datetime.datetime.strptime(s, "%Y-%m-%d")\<close>, with \<open>None\<close> for its \<open>ValueError\<close>.
  The directive \<open>%Y\<close> reads four digits, \<open>%m\<close> one of \<open>1[0-2]|0[1-9]|[1-9]\<close>, \<open>%d\<close> one
  of \<open>3[0-1]|[1-2]\d|0[1-9]|[1-9]| [1-9]\<close>; text left over is an error, and so is a
  date that does not exist.
\<close>

definition month_field :: "string \<Rightarrow> bool" where
  "month_field s \<longleftrightarrow>
     (case s of
        [a] \<Rightarrow> py_isdigit a \<and> a \<noteq> CHR ''0''
      | [a, b] \<Rightarrow> (a = CHR ''0'' \<and> py_isdigit b \<and> b \<noteq> CHR ''0'')
                 \<or> (a = CHR ''1'' \<and> b \<in> {CHR ''0'', CHR ''1'', CHR ''2''})
      | _ \<Rightarrow> False)"

definition day_field :: "string \<Rightarrow> bool" where
  "day_field s \<longleftrightarrow>
     (case s of
        [a] \<Rightarrow> py_isdigit a \<and> a \<noteq> CHR ''0''
      | [a, b] \<Rightarrow> (a = CHR ''3'' \<and> b \<in> {CHR ''0'', CHR ''1''})
                 \<or> (a \<in> {CHR ''1'', CHR ''2''} \<and> py_isdigit b)
                 \<or> (a \<in> {CHR ''0'', CHR '' ''} \<and> py_isdigit b \<and> b \<noteq> CHR ''0'')
      | _ \<Rightarrow> False)"

definition strptime_ymd :: "string \<Rightarrow> date option" where
  "strptime_ymd s =
     (case py_split CHR ''-'' s of
        [fy, fm, fd] \<Rightarrow>
          if length fy = 4 \<and> list_all py_isdigit fy \<and> month_field fm \<and> day_field fd
          then (case (py_int fy, py_int fm, py_int fd) of
                  (Some y, Some m, Some d) \<Rightarrow>
                    if 1 \<le> y \<and> d \<le> days_in_month y m
                    then Some \<lparr>year = y, month = m, day = d\<rparr> else None
                | _ \<Rightarrow> None)
          else None
      | _ \<Rightarrow> None)"

section \<open>Python numbers\<close>

text \<open>
  A Python \<open>float\<close> is a binary floating-point number of 53 significant bits (IEEE 754
  double precision), an infinity, or not-a-number. A finite float is kept as the
  rational number it is exactly equal to; the two zeros, which Python compares as
  equal and which differ in no result other than a zero, are the one value
  \<open>Finite 0\<close>.
\<close>

datatype pyfloat = Finite rat | PosInf | NegInf | NaN

definition pow2 :: "int \<Rightarrow> rat" where
  "pow2 e = (if 0 \<le> e then of_int (2 ^ nat e) else 1 / of_int (2 ^ nat (- e)))"

text \<open>The nearest integer, and the even one of the two when \<open>x\<close> lies exactly between them.\<close>

definition round_half_even :: "rat \<Rightarrow> int" where
  "round_half_even x =
     (let f = \<lfloor>x\<rfloor>; r = x - of_int f
      in if r < 1 / 2 then f
         else if 1 / 2 < r then f + 1
         else if even f then f else f + 1)"

text \<open>
  For a positive \<open>x\<close>, the integer \<open>n\<close> with \<open>2 ^ n \<le> x < 2 ^ (n + 1)\<close>: the bit
  lengths of numerator and denominator give it up to one.
\<close>

definition floor_log2 :: "rat \<Rightarrow> int" where
  "floor_log2 x =
     (let d = bitlen (fst (quotient_of x)) - bitlen (snd (quotient_of x))
      in if pow2 d \<le> x then d else d - 1)"

text \<open>
  Rounding a positive rational to the nearest float, ties to the even significand:
  the significand has 53 bits, the exponent of its last bit is at least \<open>-1074\<close>
  (below that the spacing stays \<open>2 ^ -1074\<close>, and small numbers round to zero), and a
  result of \<open>2 ^ 1024\<close> or more is the infinity.
\<close>

definition nearest_double :: "rat \<Rightarrow> pyfloat" where
  "nearest_double x =
     (let e = max (floor_log2 x - 52) (- 1074);
          v = of_int (round_half_even (x / pow2 e)) * pow2 e
      in if 1024 \<le> floor_log2 v then PosInf else Finite v)"

fun float_neg :: "pyfloat \<Rightarrow> pyfloat" where
  "float_neg (Finite x) = Finite (- x)"
| "float_neg PosInf = NegInf"
| "float_neg NegInf = PosInf"
| "float_neg NaN = NaN"

text \<open>
  The float nearest to a rational. This is the value of a decimal literal such as
  \<open>1.3\<close>, and the rounding that every arithmetic operation on floats ends with.
\<close>

definition to_double :: "rat \<Rightarrow> pyfloat" where
  "to_double x =
     (if x = 0 then Finite 0
      else if 0 < x then nearest_double x
      else float_neg (nearest_double (- x)))"

text \<open>\<open>x < 0\<close> for a float: false for not-a-number.\<close>

fun float_lt_zero :: "pyfloat \<Rightarrow> bool" where
  "float_lt_zero (Finite x) \<longleftrightarrow> x < 0"
| "float_lt_zero NegInf \<longleftrightarrow> True"
| "float_lt_zero _ \<longleftrightarrow> False"

text \<open>
  Division and multiplication of two floats, the divisor not being zero (Python tests
  that before it divides). Neither raises: a result too large is an infinity.
\<close>

fun float_div :: "pyfloat \<Rightarrow> pyfloat \<Rightarrow> pyfloat" where
  "float_div (Finite x) (Finite y) = to_double (x / y)"
| "float_div (Finite x) PosInf = Finite 0"
| "float_div (Finite x) NegInf = Finite 0"
| "float_div PosInf (Finite y) = (if 0 < y then PosInf else NegInf)"
| "float_div NegInf (Finite y) = (if 0 < y then NegInf else PosInf)"
| "float_div _ _ = NaN"

fun float_mul :: "pyfloat \<Rightarrow> pyfloat \<Rightarrow> pyfloat" where
  "float_mul (Finite x) (Finite y) = to_double (x * y)"
| "float_mul (Finite x) PosInf = (if x = 0 then NaN else if 0 < x then PosInf else NegInf)"
| "float_mul (Finite x) NegInf = (if x = 0 then NaN else if 0 < x then NegInf else PosInf)"
| "float_mul PosInf (Finite y) = (if y = 0 then NaN else if 0 < y then PosInf else NegInf)"
| "float_mul NegInf (Finite y) = (if y = 0 then NaN else if 0 < y then NegInf else PosInf)"
| "float_mul PosInf PosInf = PosInf"
| "float_mul NegInf NegInf = PosInf"
| "float_mul PosInf NegInf = NegInf"
| "float_mul NegInf PosInf = NegInf"
| "float_mul _ _ = NaN"

text \<open>
  \<open>round(x, 2)\<close> for a float: the exact value of \<open>x\<close> is rounded to the nearest
  multiple of one hundredth, ties to the even one, and the result is the float
  nearest to that; an infinity and not-a-number are returned as they are.
\<close>

fun py_round2 :: "pyfloat \<Rightarrow> pyfloat" where
  "py_round2 (Finite x) = to_double (of_int (round_half_even (x * 100)) / 100)"
| "py_round2 f = f"

text \<open>
  A number read from JSON, or handed to \<open>convert_currency\<close>, is an \<open>int\<close> of any size
  or a \<open>float\<close>. In arithmetic with a float an \<open>int\<close> is first converted to the
  nearest float, and \<open>OverflowError\<close> is raised when it has none.
\<close>

datatype py_number = PyInt int | PyFloat pyfloat

definition to_float :: "py_number \<Rightarrow> py_error + pyfloat" where
  "to_float v =
     (case v of
        PyFloat f \<Rightarrow> Inr f
      | PyInt n \<Rightarrow>
          (case to_double (of_int n) of
             Finite x \<Rightarrow> Inr (Finite x)
           | _ \<Rightarrow> Inl OverflowError))"

text \<open>
  \<open>a / v\<close> and \<open>a * v\<close> for a float \<open>a\<close> and a number \<open>v\<close>: the conversion of \<open>v\<close>
  comes first, then the test for a zero divisor.
\<close>

definition py_truediv :: "pyfloat \<Rightarrow> py_number \<Rightarrow> py_error + pyfloat" where
  "py_truediv a v =
     (case to_float v of
        Inl err \<Rightarrow> Inl err
      | Inr b \<Rightarrow> if b = Finite 0 then Inl ZeroDivisionError else Inr (float_div a b))"

definition py_mul :: "pyfloat \<Rightarrow> py_number \<Rightarrow> py_error + pyfloat" where
  "py_mul a v =
     (case to_float v of
        Inl err \<Rightarrow> Inl err
      | Inr b \<Rightarrow> Inr (float_mul a b))"

section \<open>The archive file and the rate provider\<close>

text \<open>
  A table of rates is a Python \<open>dict\<close> from currency codes to numbers, kept as an
  association list in insertion order; \<open>d[k] = v\<close> is \<^const>\<open>AList.update\<close>,
  which replaces in place or appends.
\<close>

type_synonym rate_table = "(string \<times> py_number) list"

text \<open>
  The keys of the dictionary that \<open>archive_rates\<close> builds: the keys that \<open>json.load\<close>
  read are strings, the key \<open>data["timestamp"]\<close> it adds is an integer, and in a
  Python \<open>dict\<close> a string never equals an integer.
\<close>

datatype pykey = KStr string | KInt int

type_synonym archive = "(pykey \<times> rate_table) list"

text \<open>
  What opening and parsing a JSON file can give: \<open>Unreadable\<close> is the \<open>IOError\<close> of
  \<open>open\<close>, \<open>Malformed\<close> the \<open>ValueError\<close> of \<open>json.load\<close> on text that is not JSON
  (an empty file too), \<open>Content\<close> the members of the JSON object in the file, in file
  order. A file holding JSON that is not an object is outside the model.
\<close>

datatype 'a json_file = Unreadable | Malformed | Content 'a

type_synonym json_archive = "(string \<times> rate_table) list"

text \<open>
  \<open>json.load\<close> on an object: a key that occurs again keeps its place and takes the
  later value. \<open>json.dump\<close> writes the entries in order, an integer key as its decimal
  string.
\<close>

definition json_load :: "(string \<times> 'v) list \<Rightarrow> (pykey \<times> 'v) list" where
  "json_load members = fold (\<lambda>(k, v). AList.update (KStr k) v) members []"

fun key_str :: "pykey \<Rightarrow> string" where
  "key_str (KStr s) = s"
| "key_str (KInt i) = py_str i"

definition json_dump :: "archive \<Rightarrow> json_archive" where
  "json_dump d = map (\<lambda>(k, v). (key_str k, v)) d"

text \<open>
  The response of the provider, \<open>{"timestamp": ..., "base": ..., "rates": ...}\<close>, and
  the two routes \<open>download_rates\<close> asks. The provider answers with such a body or
  with an HTTP error status; a failure of the network itself is outside the model.
\<close>

record snapshot =
  timestamp :: int
  base :: string
  rates :: rate_table

datatype route = Latest_json | Historical string

datatype response = HTTPError nat | Body snapshot

text \<open>
  What a call finds around it: the local date of \<open>datetime.datetime.now()\<close>, the
  answer of the provider to each route, whether the archive file can be opened for
  writing, and what the two library calls
  \<open>datetime.datetime.utcfromtimestamp(float(key))\<close> give for each key of an archive:
  a date, or the exception they raise. The two calls are not modelled: \<open>get_rates\<close>
  is described for every answer they may give. What a call changes: the archive
  file, and the list of requests sent. The configuration file is taken to hold every
  section it is asked for.
\<close>

record env =
  today :: date
  provider :: "route \<Rightarrow> response"
  writable :: bool
  saved_date :: "pykey \<Rightarrow> py_error + date"

record world =
  archive_file :: "json_archive json_file"
  requests :: "route list"

section \<open>\<open>download_rates\<close>, \<open>archive_rates\<close> and \<open>get_rates\<close>\<close>

definition route_of :: "string \<Rightarrow> route" where
  "route_of self_date = (if self_date = ''latest'' then Latest_json else Historical self_date)"

definition download_rates :: "env \<Rightarrow> string \<Rightarrow> world \<Rightarrow> (py_error + snapshot) \<times> world" where
  "download_rates e self_date w =
     (let w' = w\<lparr>requests := requests w @ [route_of self_date]\<rparr>
      in case provider e (route_of self_date) of
           HTTPError code \<Rightarrow> (Inl (SystemExit 1), w')
         | Body data \<Rightarrow> (Inr data, w'))"

text \<open>
  \<open>archive_rates\<close>: a file that cannot be read or parsed gives the empty dictionary
  (\<open>loaded_archive\<close> is the first \<open>try\<close> block); a file that cannot be opened for
  writing is left as it was (the failure is only printed).
\<close>

definition loaded_archive :: "world \<Rightarrow> archive" where
  "loaded_archive w =
     (case archive_file w of Content members \<Rightarrow> json_load members | _ \<Rightarrow> [])"

definition archive_rates :: "env \<Rightarrow> snapshot \<Rightarrow> world \<Rightarrow> world" where
  "archive_rates e data w =
     (let loaded_data = loaded_archive w;
          loaded_data' = AList.update (KInt (timestamp data)) (rates data) loaded_data
      in if writable e then w\<lparr>archive_file := Content (json_dump loaded_data')\<rparr> else w)"

text \<open>
  The \<open>for key in data\<close> loop of \<open>get_rates\<close>: the first entry whose date has the
  year, month and day asked for is returned; an exception of the conversion leaves
  the loop, since nothing handles it there.
\<close>

fun search_archive :: "env \<Rightarrow> date \<Rightarrow> archive \<Rightarrow> py_error + rate_table option" where
  "search_archive e d [] = Inr None"
| "search_archive e d ((key, v) # rest) =
     (case saved_date e key of
        Inl err \<Rightarrow> Inl err
      | Inr sd \<Rightarrow>
          if year d = year sd \<and> month d = month sd \<and> day d = day sd then Inr (Some v)
          else search_archive e d rest)"

text \<open>The three lines \<open>download_rates\<close>, \<open>archive_rates\<close>, \<open>return rates["rates"]\<close>.\<close>

definition download_and_archive :: "env \<Rightarrow> string \<Rightarrow> world \<Rightarrow> (py_error + rate_table) \<times> world" where
  "download_and_archive e self_date w =
     (case download_rates e self_date w of
        (Inl err, w') \<Rightarrow> (Inl err, w')
      | (Inr data, w') \<Rightarrow> (Inr (rates data), archive_rates e data w'))"

text \<open>
  \<open>get_rates\<close>: the \<open>try\<close> block reads the archive and then fixes the date to look
  for, today for \<open>"latest"\<close>; an \<open>IOError\<close> or \<open>ValueError\<close> of either step goes to the
  download. Otherwise the archive is searched, and the download follows a search
  that found nothing.
\<close>

definition get_rates :: "env \<Rightarrow> string \<Rightarrow> world \<Rightarrow> (py_error + rate_table) \<times> world" where
  "get_rates e self_date w =
     (case archive_file w of
        Content members \<Rightarrow>
          (case (if self_date = ''latest'' then Some (today e) else strptime_ymd self_date) of
             None \<Rightarrow> download_and_archive e self_date w
           | Some d \<Rightarrow>
               (case search_archive e d (json_load members) of
                  Inl err \<Rightarrow> (Inl err, w)
                | Inr (Some found) \<Rightarrow> (Inr found, w)
                | Inr None \<Rightarrow> download_and_archive e self_date w))
      | _ \<Rightarrow> download_and_archive e self_date w)"

section \<open>\<open>translate_symbol\<close> and \<open>get_target_currencies\<close>\<close>

text \<open>
  \<open>d[k]\<close> and \<open>k in d\<close> for a key that is a string or \<open>None\<close>: \<open>None\<close> is no key
  of a dictionary read from JSON. The result \<open>None\<close> of \<open>dict_get\<close> and \<open>rate_get\<close>
  stands for \<open>KeyError\<close>.
\<close>

definition dict_get :: "(pykey \<times> 'v) list \<Rightarrow> string option \<Rightarrow> 'v option" where
  "dict_get d k = (case k of None \<Rightarrow> None | Some s \<Rightarrow> map_of d (KStr s))"

definition rate_get :: "rate_table \<Rightarrow> string option \<Rightarrow> py_number option" where
  "rate_get d k = (case k of None \<Rightarrow> None | Some s \<Rightarrow> map_of d s)"

definition py_in :: "string option \<Rightarrow> rate_table \<Rightarrow> bool" where
  "py_in k d \<longleftrightarrow> (case k of None \<Rightarrow> False | Some s \<Rightarrow> s \<in> set (map fst d))"

text \<open>
  \<open>translate_symbol\<close>: the \<open>IOError\<close> of opening the table ends the program with
  \<open>exit(1)\<close>; the \<open>ValueError\<close> of \<open>json.load\<close> on text that is not JSON is named by
  neither \<open>except\<close> clause; the \<open>KeyError\<close> of the lookup gives the empty list.
\<close>

definition translate_symbol ::
  "(string \<times> string list) list json_file \<Rightarrow> string option \<Rightarrow> py_error + string list" where
  "translate_symbol table currency =
     (case table of
        Unreadable \<Rightarrow> Inl (SystemExit 1)
      | Malformed \<Rightarrow> Inl (ValueError ''Expecting value'')
      | Content members \<Rightarrow>
          (case dict_get (json_load members) currency of
             None \<Rightarrow> Inr []
           | Some currencies \<Rightarrow> Inr currencies))"

text \<open>\<open>"...{0}...".format(original_currency)\<close> prints \<open>None\<close> as \<open>None\<close>.\<close>

definition format_currency :: "string option \<Rightarrow> string" where
  "format_currency c = (case c of None \<Rightarrow> ''None'' | Some s \<Rightarrow> s)"

definition get_target_currencies ::
  "rate_table \<Rightarrow> (string \<times> string list) list json_file \<Rightarrow> string option \<Rightarrow> string option
     \<Rightarrow> py_error + string list" where
  "get_target_currencies currency_rates table original_currency target_currency =
     (if (case original_currency of None \<Rightarrow> False | Some s \<Rightarrow> s \<noteq> [] \<and> length s \<noteq> 3)
      then Inl (ValueError ''Currency symbol as input parameter not supported'')
      else if \<not> py_in original_currency currency_rates
      then Inl (ValueError (''Currency '' @ format_currency original_currency
                              @ '' invalid or not supported''))
      else
        (case translate_symbol table target_currency of
           Inl err \<Rightarrow> Inl err
         | Inr target_currencies \<Rightarrow>
             if target_currencies \<noteq> [] then Inr target_currencies
             else (case target_currency of
                     None \<Rightarrow> Inr (map fst currency_rates)
                   | Some t \<Rightarrow>
                       if t \<in> set (map fst currency_rates) then Inr [t]
                       else Inr (map fst currency_rates))))"

section \<open>\<open>convert_currency\<close>\<close>

text \<open>The dictionary \<open>convert_currency\<close> returns.\<close>

record conversion =
  input_amount :: pyfloat
  input_currency :: "string option"
  outputs :: "(string \<times> pyfloat) list"

text \<open>
  The two statements of the \<open>try\<close> block in the loop, for one target: the lookup
  \<open>self.currency_rates[currency]\<close>, whose failure is \<open>KeyError\<close>, then
  \<open>round((amount/original_rate) * target_rate, 2)\<close>.
\<close>

definition converted_amount ::
  "rate_table \<Rightarrow> pyfloat \<Rightarrow> py_number \<Rightarrow> string \<Rightarrow> py_error + pyfloat" where
  "converted_amount currency_rates amount original_rate currency =
     (case map_of currency_rates currency of
        None \<Rightarrow> Inl KeyError
      | Some target_rate \<Rightarrow>
          (case py_truediv amount original_rate of
             Inl err \<Rightarrow> Inl err
           | Inr divided \<Rightarrow>
               (case py_mul divided target_rate of
                  Inl err \<Rightarrow> Inl err
                | Inr multiplied \<Rightarrow> Inr (py_round2 multiplied))))"

text \<open>
  The loop over \<open>target_currencies\<close>: a \<open>KeyError\<close> is handled and the currency
  skipped; any other exception leaves the loop and the function.
\<close>

fun convert_loop ::
  "rate_table \<Rightarrow> pyfloat \<Rightarrow> py_number \<Rightarrow> string list \<Rightarrow> (string \<times> pyfloat) list
     \<Rightarrow> py_error + (string \<times> pyfloat) list" where
  "convert_loop currency_rates amount original_rate [] out = Inr out"
| "convert_loop currency_rates amount original_rate (currency # rest) out =
     (case converted_amount currency_rates amount original_rate currency of
        Inl err \<Rightarrow>
          if err = KeyError then convert_loop currency_rates amount original_rate rest out
          else Inl err
      | Inr x \<Rightarrow>
          convert_loop currency_rates amount original_rate rest (AList.update currency x out))"

text \<open>
  \<open>convert_currency\<close>: only a \<open>float\<close> passes \<open>isinstance(amount, float)\<close>; the lookup
  of the rate of the source stands outside every \<open>try\<close>.
\<close>

definition convert_currency ::
  "rate_table \<Rightarrow> py_number \<Rightarrow> string option \<Rightarrow> string list \<Rightarrow> py_error + conversion" where
  "convert_currency currency_rates amount original_currency target_currencies =
     (case amount of
        PyInt _ \<Rightarrow> Inl (ValueError ''Value has to be float type.'')
      | PyFloat a \<Rightarrow>
          if float_lt_zero a then Inl (ValueError ''Value cannot be negative.'')
          else
            (case rate_get currency_rates original_currency of
               None \<Rightarrow> Inl KeyError
             | Some original_rate \<Rightarrow>
                 (case convert_loop currency_rates a original_rate target_currencies [] of
                    Inl err \<Rightarrow> Inl err
                  | Inr out \<Rightarrow>
                      Inr \<lparr>input_amount = a, input_currency = original_currency,
                           outputs = out\<rparr>)))"

section \<open>The validation failures that the specification lists\<close>

text \<open>
  The inputs that section 4.1 of the specification calls failures of validation,
  written from its words: a length other than 10, a split at \<open>/\<close> that does not
  give three fields, a field that is no integer, a year outside 2000 to the current
  year, a month outside 1 to 12, a day below 1 or beyond the last day of the month in
  the Gregorian calendar.
\<close>

definition fails_validation :: "int \<Rightarrow> string \<Rightarrow> bool" where
  "fails_validation current_year d \<longleftrightarrow>
     length d \<noteq> 10 \<or>
     (case py_split CHR ''/'' d of
        [pday, pmonth, pyear] \<Rightarrow>
          (case (py_int pday, py_int pmonth, py_int pyear) of
             (Some dd, Some mm, Some yy) \<Rightarrow>
               yy < 2000 \<or> current_year < yy \<or> mm < 1 \<or> 12 < mm
               \<or> dd < 1 \<or> days_in_month yy mm < dd
           | _ \<Rightarrow> True)
      | _ \<Rightarrow> True)"

section \<open>Example data\<close>

text \<open>
  The rates of the example in the specification, \<open>{USD: 1.5, CZK: 25, CAD: 1.3}\<close>:
  1.5 is a float exactly, 25 is an \<open>int\<close>, and 1.3 is the float nearest to 13/10.
\<close>

definition spec_rates :: rate_table where
  "spec_rates = [(''USD'', PyFloat (Finite (3 / 2))), (''CZK'', PyInt 25),
                 (''CAD'', PyFloat (to_double (13 / 10)))]"

text \<open>
  What the library gives for the three keys of the examples below: 1499904000 is
  13 July 2017 at 00:00 UTC, 1500000000 is 14 July 2017 at 02:40, and 1500030000 is
  14 July 2017 at 11:00. The examples ask for no other key.
\<close>

definition example_dates :: "pykey \<Rightarrow> py_error + date" where
  "example_dates key =
     (if key = KStr ''1499904000'' then Inr \<lparr>year = 2017, month = 7, day = 13\<rparr>
      else if key = KStr ''1500000000'' then Inr \<lparr>year = 2017, month = 7, day = 14\<rparr>
      else if key = KStr ''1500030000'' then Inr \<lparr>year = 2017, month = 7, day = 14\<rparr>
      else Inl (ValueError ''could not convert string to float''))"

text \<open>
  A provider that answers every route with a snapshot taken on 14 July 2017 at 11:00
  UTC, an archive that holds a snapshot of 13 July 2017, and one that also holds a
  snapshot of 14 July 2017 at 02:40 UTC.
\<close>

definition example_snapshot :: snapshot where
  "example_snapshot =
     \<lparr>timestamp = 1500030000, base = ''USD'', rates = [(''CZK'', PyInt 25)]\<rparr>"

definition example_env :: env where
  "example_env = \<lparr>today = \<lparr>year = 2017, month = 7, day = 14\<rparr>,
                   provider = (\<lambda>r. Body example_snapshot), writable = True,
                   saved_date = example_dates\<rparr>"

definition yesterday_world :: world where
  "yesterday_world =
     \<lparr>archive_file = Content [(''1499904000'', [(''CZK'', PyInt 22)])], requests = []\<rparr>"

definition example_world :: world where
  "example_world =
     \<lparr>archive_file = Content [(''1499904000'', [(''CZK'', PyInt 22)]),
                              (''1500000000'', [(''CZK'', PyInt 24)])],
      requests = []\<rparr>"

section \<open>Properties of target resolution and symbol translation\<close>

text \<open>
  Claim C7. A source currency that is not a key of \<open>currency_rates\<close> (an unknown
  code, or \<open>None\<close>) makes \<open>get_target_currencies\<close> raise \<open>ValueError\<close>, whatever the
  target and whatever the state of the symbol table, which is not even read. A
  source that is a non-empty string of a length other than 3 is rejected by the first
  check, with its own message, also when it is a key of \<open>currency_rates\<close>.
\<close>

theorem get_target_currencies_rejects_source:
  "(\<not> py_in original_currency currency_rates \<longrightarrow>
      (\<exists>msg. get_target_currencies currency_rates table original_currency target_currency
               = Inl (ValueError msg)))
   \<and> ((\<exists>s. original_currency = Some s \<and> s \<noteq> [] \<and> length s \<noteq> 3) \<longrightarrow>
        get_target_currencies currency_rates table original_currency target_currency
          = Inl (ValueError ''Currency symbol as input parameter not supported''))"
  by (auto simp: get_target_currencies_def split: option.splits)

theorem get_target_currencies_rejects_source_witness:
  "\<not> py_in (Some ''XXX'') spec_rates
   \<and> \<not> py_in None spec_rates
   \<and> (\<exists>msg. get_target_currencies spec_rates Unreadable
               (Some ''XXX'') (Some ''CZK'') = Inl (ValueError msg))
   \<and> (\<exists>msg. get_target_currencies spec_rates Unreadable
               None (Some ''CZK'') = Inl (ValueError msg))
   \<and> get_target_currencies [(''USDX'', PyInt 1)] Unreadable (Some ''USDX'') None
        = Inl (ValueError ''Currency symbol as input parameter not supported'')"
  using get_target_currencies_rejects_source
          [of "Some ''XXX''" "spec_rates" Unreadable
              "Some ''CZK''"]
        get_target_currencies_rejects_source
          [of None "spec_rates" Unreadable "Some ''CZK''"]
        get_target_currencies_rejects_source [of "Some ''USDX''" "[(''USDX'', PyInt 1)]" Unreadable None]
  by (simp add: py_in_def spec_rates_def)

text \<open>
  Claim C4. For a source of three characters that is a key of \<open>currency_rates\<close>, and a
  symbol table that answers the target with the list \<open>symbols\<close>: a non-empty
  \<open>symbols\<close> is the result, also when the target is itself a key of
  \<open>currency_rates\<close>; otherwise a target that is a key of \<open>currency_rates\<close> gives the
  list of that one code; otherwise (an unknown target, or \<open>None\<close>) the result is the
  list of all keys of \<open>currency_rates\<close>.
\<close>

theorem get_target_currencies_precedence:
  assumes "length s = 3" and "s \<in> set (map fst currency_rates)"
    and "translate_symbol table target_currency = Inr symbols"
  shows "(symbols \<noteq> [] \<longrightarrow>
            get_target_currencies currency_rates table (Some s) target_currency = Inr symbols)
       \<and> (symbols = [] \<and> py_in target_currency currency_rates \<longrightarrow>
            (\<exists>t. target_currency = Some t \<and>
              get_target_currencies currency_rates table (Some s) target_currency = Inr [t]))
       \<and> (symbols = [] \<and> \<not> py_in target_currency currency_rates \<longrightarrow>
            get_target_currencies currency_rates table (Some s) target_currency
              = Inr (map fst currency_rates))"
  using assms by (auto simp: get_target_currencies_def py_in_def split: option.splits)

theorem get_target_currencies_precedence_witness:
  "length ''USD'' = 3 \<and> ''USD'' \<in> set (map fst spec_rates)
   \<and> translate_symbol (Content [(''CZK'', [''EUR'', ''GBP''])]) (Some ''CZK'') = Inr [''EUR'', ''GBP'']
   \<and> get_target_currencies spec_rates
        (Content [(''CZK'', [''EUR'', ''GBP''])]) (Some ''USD'') (Some ''CZK'') = Inr [''EUR'', ''GBP'']
   \<and> translate_symbol (Content [(''$'', [''USD''])]) (Some ''CZK'') = Inr []
   \<and> get_target_currencies spec_rates
        (Content [(''$'', [''USD''])]) (Some ''USD'') (Some ''CZK'') = Inr [''CZK'']
   \<and> get_target_currencies spec_rates
        (Content [(''$'', [''USD''])]) (Some ''USD'') (Some ''XXX'') = Inr [''USD'', ''CZK'', ''CAD'']
   \<and> get_target_currencies spec_rates
        (Content [(''$'', [''USD''])]) (Some ''USD'') None = Inr [''USD'', ''CZK'', ''CAD'']"
proof -
  let ?r = "spec_rates"
  have h1: "length ''USD'' = 3" by simp
  have h2: "''USD'' \<in> set (map fst ?r)" by (simp add: spec_rates_def)
  have t1: "translate_symbol (Content [(''CZK'', [''EUR'', ''GBP''])]) (Some ''CZK'') = Inr [''EUR'', ''GBP'']"
    by (simp add: translate_symbol_def dict_get_def json_load_def)
  have t2: "translate_symbol (Content [(''$'', [''USD''])]) (Some ''CZK'') = Inr []"
    by (simp add: translate_symbol_def dict_get_def json_load_def)
  have t3: "translate_symbol (Content [(''$'', [''USD''])]) (Some ''XXX'') = Inr []"
    by (simp add: translate_symbol_def dict_get_def json_load_def)
  have t4: "translate_symbol (Content [(''$'', [''USD''])]) None = Inr []"
    by (simp add: translate_symbol_def dict_get_def json_load_def)
  show ?thesis
    using get_target_currencies_precedence [OF h1 h2 t1] get_target_currencies_precedence [OF h1 h2 t2]
      get_target_currencies_precedence [OF h1 h2 t3] get_target_currencies_precedence [OF h1 h2 t4]
      t1 t2
    by (simp add: py_in_def spec_rates_def)
qed

text \<open>
  Claim C10. \<open>translate_symbol\<close> ends the program exactly when the table cannot be
  opened; a table that opens and holds malformed JSON gives a \<open>ValueError\<close> that
  leaves the function (neither the exit nor a list); a table that loads gives the
  value stored under the symbol, and the empty list for a symbol that is no key. The
  empty list is returned for no failure other than the missing key.
\<close>

theorem translate_symbol_failures:
  "(translate_symbol table currency = Inl (SystemExit 1) \<longleftrightarrow> table = Unreadable)
   \<and> (table = Malformed \<longrightarrow> (\<exists>msg. translate_symbol table currency = Inl (ValueError msg)))
   \<and> (\<forall>members. table = Content members \<longrightarrow>
         translate_symbol table currency =
           Inr (case dict_get (json_load members) currency of None \<Rightarrow> [] | Some cs \<Rightarrow> cs))
   \<and> (translate_symbol table currency = Inr [] \<longleftrightarrow>
         (\<exists>members. table = Content members \<and>
            dict_get (json_load members) currency \<in> {None, Some []}))"
  by (cases table) (auto simp: translate_symbol_def split: option.splits)

theorem translate_symbol_failures_witness:
  "translate_symbol Unreadable (Some ''$'') = Inl (SystemExit 1)
   \<and> (\<exists>msg. translate_symbol Malformed (Some ''$'') = Inl (ValueError msg))
   \<and> translate_symbol (Content [(''$'', [''USD'', ''CAD''])]) (Some ''$'') = Inr [''USD'', ''CAD'']
   \<and> translate_symbol (Content [(''$'', [''USD'', ''CAD''])]) (Some ''?'') = Inr []
   \<and> translate_symbol (Content [(''$'', [''USD'', ''CAD''])]) None = Inr []"
  using translate_symbol_failures [of Unreadable "Some ''$''"]
        translate_symbol_failures [of Malformed "Some ''$''"]
        translate_symbol_failures [of "Content [(''$'', [''USD'', ''CAD''])]" "Some ''$''"]
        translate_symbol_failures [of "Content [(''$'', [''USD'', ''CAD''])]" "Some ''?''"]
        translate_symbol_failures [of "Content [(''$'', [''USD'', ''CAD''])]" None]
  by (simp add: dict_get_def json_load_def)

section \<open>Properties of the conversion\<close>

text \<open>
  Floats as Python prints them exactly: the literals 1.3 and 0.1, the quotient
  \<open>1.0 / 5\<close>, the rounding of a tie to the even hundredth, and an integer with the
  nearest float.
\<close>

lemma float_examples:
  "to_double (13 / 10) = Finite (5854679515581645 / 4503599627370496)"
  "to_double (1 / 10) = Finite (3602879701896397 / 36028797018963968)"
  "float_div (Finite 1) (Finite 5) = Finite (3602879701896397 / 18014398509481984)"
  "py_round2 (Finite (1 / 8)) = to_double (12 / 100)"
  "py_round2 (Finite (3 / 8)) = to_double (38 / 100)"
  "to_float (PyInt (2 ^ 53 + 1)) = Inr (Finite (2 ^ 53))"
  by code_simp+

text \<open>
  The arithmetic for one target that has a rate: it gives a value when the rate of
  the source and the rate of the target have a float (every float has; an \<open>int\<close>
  has unless it is too large) and the float of the source rate is not zero, and
  raises otherwise. It never raises \<open>KeyError\<close>.
\<close>

lemma to_float_error: "to_float v = Inl err \<Longrightarrow> err = OverflowError"
  by (auto simp: to_float_def split: py_number.splits pyfloat.splits)

lemma converted_amount_value:
  assumes "map_of currency_rates c = Some v"
    and "to_float original_rate = Inr fs" and "fs \<noteq> Finite 0" and "to_float v = Inr ft"
  shows "converted_amount currency_rates a original_rate c
           = Inr (py_round2 (float_mul (float_div a fs) ft))"
  using assms by (simp add: converted_amount_def py_truediv_def py_mul_def)

lemma converted_amount_Inr_iff:
  assumes "map_of currency_rates c = Some v"
  shows "(\<exists>x. converted_amount currency_rates a original_rate c = Inr x) \<longleftrightarrow>
         (\<exists>fs. to_float original_rate = Inr fs \<and> fs \<noteq> Finite 0) \<and> (\<exists>ft. to_float v = Inr ft)"
  using assms
  by (auto simp: converted_amount_def py_truediv_def py_mul_def split: sum.splits)

lemma converted_amount_KeyError:
  "converted_amount currency_rates a original_rate c = Inl KeyError
     \<longleftrightarrow> map_of currency_rates c = None"
  by (auto simp: converted_amount_def py_truediv_def py_mul_def
           split: option.splits sum.splits if_splits dest: to_float_error)

text \<open>
  The loop when every target that has a rate can be computed: it ends normally, adds
  the computed value for each such target and leaves every other entry as it was.
\<close>

lemma convert_loop_ok:
  assumes "to_float original_rate = Inr fs" and "fs \<noteq> Finite 0"
    and "\<forall>t \<in> set targets. \<forall>v. map_of currency_rates t = Some v \<longrightarrow> (\<exists>ft. to_float v = Inr ft)"
  shows "\<exists>out'. convert_loop currency_rates a original_rate targets out = Inr out'
     \<and> (\<forall>t v. t \<in> set targets \<and> map_of currency_rates t = Some v \<longrightarrow>
           (\<exists>ft. to_float v = Inr ft
              \<and> map_of out' t = Some (py_round2 (float_mul (float_div a fs) ft))))
     \<and> (\<forall>t. t \<notin> set targets \<or> map_of currency_rates t = None \<longrightarrow> map_of out' t = map_of out t)"
  using assms(3)
proof (induction targets arbitrary: out)
  case Nil
  then show ?case by simp
next
  case (Cons c cs)
  from Cons.prems
  have rest: "\<forall>t \<in> set cs. \<forall>v. map_of currency_rates t = Some v \<longrightarrow> (\<exists>ft. to_float v = Inr ft)"
    by simp
  show ?case
  proof (cases "map_of currency_rates c")
    case None
    then have k: "converted_amount currency_rates a original_rate c = Inl KeyError"
      by (simp add: converted_amount_KeyError)
    from Cons.IH [OF rest, of out] obtain out' where
      o: "convert_loop currency_rates a original_rate cs out = Inr out'"
      and p: "\<forall>t v. t \<in> set cs \<and> map_of currency_rates t = Some v \<longrightarrow>
           (\<exists>ft. to_float v = Inr ft
              \<and> map_of out' t = Some (py_round2 (float_mul (float_div a fs) ft)))"
      and q: "\<forall>t. t \<notin> set cs \<or> map_of currency_rates t = None \<longrightarrow> map_of out' t = map_of out t"
      by blast
    from o k have "convert_loop currency_rates a original_rate (c # cs) out = Inr out'" by simp
    moreover from p None have "\<forall>t v. t \<in> set (c # cs) \<and> map_of currency_rates t = Some v \<longrightarrow>
           (\<exists>ft. to_float v = Inr ft
              \<and> map_of out' t = Some (py_round2 (float_mul (float_div a fs) ft)))"
      by auto
    moreover from q have "\<forall>t. t \<notin> set (c # cs) \<or> map_of currency_rates t = None
           \<longrightarrow> map_of out' t = map_of out t"
      by auto
    ultimately show ?thesis by blast
  next
    case (Some v)
    from Cons.prems Some obtain ft where ft: "to_float v = Inr ft" by auto
    let ?x = "py_round2 (float_mul (float_div a fs) ft)"
    have k: "converted_amount currency_rates a original_rate c = Inr ?x"
      using Some assms(1,2) ft by (rule converted_amount_value)
    from Cons.IH [OF rest, of "AList.update c ?x out"] obtain out' where
      o: "convert_loop currency_rates a original_rate cs (AList.update c ?x out) = Inr out'"
      and p: "\<forall>t v. t \<in> set cs \<and> map_of currency_rates t = Some v \<longrightarrow>
           (\<exists>ft. to_float v = Inr ft
              \<and> map_of out' t = Some (py_round2 (float_mul (float_div a fs) ft)))"
      and q: "\<forall>t. t \<notin> set cs \<or> map_of currency_rates t = None
           \<longrightarrow> map_of out' t = map_of (AList.update c ?x out) t"
      by blast
    from o k have "convert_loop currency_rates a original_rate (c # cs) out = Inr out'" by simp
    moreover have "\<forall>t v. t \<in> set (c # cs) \<and> map_of currency_rates t = Some v \<longrightarrow>
           (\<exists>ft. to_float v = Inr ft
              \<and> map_of out' t = Some (py_round2 (float_mul (float_div a fs) ft)))"
    proof (intro allI impI)
      fix t v' assume a: "t \<in> set (c # cs) \<and> map_of currency_rates t = Some v'"
      show "\<exists>ft. to_float v' = Inr ft
              \<and> map_of out' t = Some (py_round2 (float_mul (float_div a fs) ft))"
      proof (cases "t \<in> set cs")
        case True
        with a p show ?thesis by blast
      next
        case False
        with a have tc: "t = c" by simp
        with a Some have "v' = v" by simp
        moreover from q False tc have "map_of out' t = Some ?x"
          by (simp add: AList.update_conv')
        ultimately show ?thesis using ft by blast
      qed
    qed
    moreover from q Some have "\<forall>t. t \<notin> set (c # cs) \<or> map_of currency_rates t = None
           \<longrightarrow> map_of out' t = map_of out t"
      by (auto simp: AList.update_conv')
    ultimately show ?thesis by blast
  qed
qed

text \<open>The loop ends normally exactly when every target that has a rate can be computed.\<close>

lemma convert_loop_Inr_iff:
  "(\<exists>out'. convert_loop currency_rates a original_rate targets out = Inr out') \<longleftrightarrow>
   (\<forall>t \<in> set targets. \<forall>v. map_of currency_rates t = Some v \<longrightarrow>
      (\<exists>fs. to_float original_rate = Inr fs \<and> fs \<noteq> Finite 0) \<and> (\<exists>ft. to_float v = Inr ft))"
proof (induction targets arbitrary: out)
  case Nil
  then show ?case by simp
next
  case (Cons c cs)
  show ?case
  proof (cases "map_of currency_rates c")
    case None
    then have "converted_amount currency_rates a original_rate c = Inl KeyError"
      by (simp add: converted_amount_KeyError)
    with Cons.IH [of out] None show ?thesis by simp
  next
    case (Some v)
    show ?thesis
    proof (cases "converted_amount currency_rates a original_rate c")
      case (Inl err)
      with Some have "err \<noteq> KeyError" using converted_amount_KeyError by fastforce
      with Inl have "convert_loop currency_rates a original_rate (c # cs) out = Inl err" by simp
      moreover from Inl converted_amount_Inr_iff [OF Some, of a original_rate]
      have "\<not> ((\<exists>fs. to_float original_rate = Inr fs \<and> fs \<noteq> Finite 0)
                \<and> (\<exists>ft. to_float v = Inr ft))"
        by simp
      ultimately show ?thesis using Some by auto
    next
      case (Inr x)
      with converted_amount_Inr_iff [OF Some, of a original_rate]
      have ok: "(\<exists>fs. to_float original_rate = Inr fs \<and> fs \<noteq> Finite 0)
                \<and> (\<exists>ft. to_float v = Inr ft)"
        by blast
      from Inr have "convert_loop currency_rates a original_rate (c # cs) out
           = convert_loop currency_rates a original_rate cs (AList.update c x out)"
        by simp
      with Cons.IH [of "AList.update c x out"] ok Some show ?thesis by auto
    qed
  qed
qed

text \<open>
  The claim C3 as first stated (a result for every source that has a rate) fails:
  with a rate of zero for the source, and a target that has a rate, the division
  raises \<open>ZeroDivisionError\<close>, which nothing handles.
\<close>

theorem convert_currency_zero_division_counterexample:
  "rate_get [(''USD'', PyFloat (Finite 0)), (''CZK'', PyInt 25)] (Some ''USD'')
      = Some (PyFloat (Finite 0))
   \<and> \<not> float_lt_zero (Finite 300)
   \<and> convert_currency [(''USD'', PyFloat (Finite 0)), (''CZK'', PyInt 25)]
        (PyFloat (Finite 300)) (Some ''USD'') [''CZK''] = Inl ZeroDivisionError"
  by code_simp

text \<open>
  Claim C3, as amended. Let the amount be a \<open>float\<close> that is not negative, let the
  source have a rate whose float is not zero, and let every target that has a rate
  have one with a float (a float, or an \<open>int\<close> not too large for one). Then
  \<open>convert_currency\<close> returns a result: its input is the amount and the source, and
  its output has, for each target that is a key of \<open>currency_rates\<close>, the float
  \<open>round(amount / rate[source] * rate[target], 2)\<close>, and no entry for any other code;
  a target without a rate is skipped and the loop goes on.
\<close>

theorem convert_currency_outputs:
  assumes "\<not> float_lt_zero a"
    and "rate_get currency_rates source = Some rs"
    and "to_float rs = Inr fs" and "fs \<noteq> Finite 0"
    and "\<forall>t \<in> set targets. \<forall>v. map_of currency_rates t = Some v \<longrightarrow> (\<exists>ft. to_float v = Inr ft)"
  shows "\<exists>res. convert_currency currency_rates (PyFloat a) source targets = Inr res
     \<and> input_amount res = a \<and> input_currency res = source
     \<and> (\<forall>t v. t \<in> set targets \<and> map_of currency_rates t = Some v \<longrightarrow>
           (\<exists>ft. to_float v = Inr ft
              \<and> map_of (outputs res) t = Some (py_round2 (float_mul (float_div a fs) ft))))
     \<and> (\<forall>t. t \<notin> set targets \<or> map_of currency_rates t = None \<longrightarrow>
           map_of (outputs res) t = None)"
proof -
  from convert_loop_ok [OF assms(3,4,5), of a "[]"]
  obtain out' where o: "convert_loop currency_rates a rs targets [] = Inr out'"
    and p: "\<forall>t v. t \<in> set targets \<and> map_of currency_rates t = Some v \<longrightarrow>
           (\<exists>ft. to_float v = Inr ft
              \<and> map_of out' t = Some (py_round2 (float_mul (float_div a fs) ft)))"
    and q: "\<forall>t. t \<notin> set targets \<or> map_of currency_rates t = None
           \<longrightarrow> map_of out' t = map_of [] t"
    by blast
  from q have "\<forall>t. t \<notin> set targets \<or> map_of currency_rates t = None \<longrightarrow> map_of out' t = None"
    by simp
  with o p assms(1,2) show ?thesis
    by (simp add: convert_currency_def)
qed

text \<open>
  The witness: the example of the specification, with the results 5000.0 and 260.0,
  and an amount of 1.0 at the rates 5 and 0.125, where the product is the float just
  above 0.025 and is rounded to 0.03 (the exact product 0.025 would go to 0.02).
\<close>

lemma spec_example_values:
  "to_float (PyFloat (Finite (3 / 2))) = Inr (Finite (3 / 2))"
  "to_float (PyInt 25) = Inr (Finite 25)"
  "to_float (PyFloat (to_double (13 / 10))) = Inr (to_double (13 / 10))"
  "py_round2 (float_mul (float_div (Finite 300) (Finite (3 / 2))) (Finite 25)) = Finite 5000"
  "py_round2 (float_mul (float_div (Finite 300) (Finite (3 / 2))) (to_double (13 / 10)))
     = Finite 260"
  by code_simp+

lemma rounding_example_values:
  "to_float (PyInt 5) = Inr (Finite 5)"
  "to_float (PyFloat (Finite (1 / 8))) = Inr (Finite (1 / 8))"
  "py_round2 (float_mul (float_div (Finite 1) (Finite 5)) (Finite (1 / 8))) = to_double (3 / 100)"
  "to_double (3 / 100) \<noteq> to_double (2 / 100)"
  by code_simp+

theorem convert_currency_outputs_witness:
  "\<not> float_lt_zero (Finite 300)
   \<and> rate_get spec_rates (Some ''USD'') = Some (PyFloat (Finite (3 / 2)))
   \<and> to_float (PyFloat (Finite (3 / 2))) = Inr (Finite (3 / 2))
   \<and> (\<exists>res. convert_currency spec_rates (PyFloat (Finite 300)) (Some ''USD'')
               [''CZK'', ''XXX'', ''CAD''] = Inr res
         \<and> input_amount res = Finite 300 \<and> input_currency res = Some ''USD''
         \<and> map_of (outputs res) ''CZK'' = Some (Finite 5000)
         \<and> map_of (outputs res) ''CAD'' = Some (Finite 260)
         \<and> map_of (outputs res) ''XXX'' = None
         \<and> map_of (outputs res) ''USD'' = None)
   \<and> (\<exists>res. convert_currency [(''USD'', PyInt 5), (''CZK'', PyFloat (Finite (1 / 8)))]
               (PyFloat (Finite 1)) (Some ''USD'') [''CZK''] = Inr res
         \<and> map_of (outputs res) ''CZK'' = Some (to_double (3 / 100))
         \<and> to_double (3 / 100) \<noteq> to_double (2 / 100))"
proof -
  have n: "\<not> float_lt_zero (Finite 300)" "\<not> float_lt_zero (Finite 1)" by simp_all
  have z: "Finite (3 / 2) \<noteq> Finite 0" "Finite 5 \<noteq> Finite 0" by simp_all
  have g: "rate_get spec_rates (Some ''USD'') = Some (PyFloat (Finite (3 / 2)))"
    by (simp add: rate_get_def spec_rates_def)
  have czk: "map_of spec_rates ''CZK'' = Some (PyInt 25)"
    and cad: "map_of spec_rates ''CAD'' = Some (PyFloat (to_double (13 / 10)))"
    and xxx: "map_of spec_rates ''XXX'' = None"
    by (simp_all add: spec_rates_def)
  have all: "\<forall>t \<in> set [''CZK'', ''XXX'', ''CAD'']. \<forall>v. map_of spec_rates t = Some v
               \<longrightarrow> (\<exists>ft. to_float v = Inr ft)"
    using czk cad xxx spec_example_values(2,3) by simp
  from convert_currency_outputs [OF n(1) g spec_example_values(1) z(1) all]
  obtain res where r: "convert_currency spec_rates (PyFloat (Finite 300)) (Some ''USD'')
               [''CZK'', ''XXX'', ''CAD''] = Inr res"
    "input_amount res = Finite 300" "input_currency res = Some ''USD''"
    and p: "\<forall>t v. t \<in> set [''CZK'', ''XXX'', ''CAD''] \<and> map_of spec_rates t = Some v \<longrightarrow>
           (\<exists>ft. to_float v = Inr ft
              \<and> map_of (outputs res) t
                  = Some (py_round2 (float_mul (float_div (Finite 300) (Finite (3 / 2))) ft)))"
    and q: "\<forall>t. t \<notin> set [''CZK'', ''XXX'', ''CAD''] \<or> map_of spec_rates t = None \<longrightarrow>
           map_of (outputs res) t = None"
    by blast
  from p czk spec_example_values(2,4) have o1: "map_of (outputs res) ''CZK'' = Some (Finite 5000)"
    by fastforce
  from p cad spec_example_values(3,5) have o2: "map_of (outputs res) ''CAD'' = Some (Finite 260)"
    by fastforce
  from q xxx have o3: "map_of (outputs res) ''XXX'' = None" by blast
  from q have o4: "map_of (outputs res) ''USD'' = None" by simp
  let ?r = "[(''USD'', PyInt 5), (''CZK'', PyFloat (Finite (1 / 8)))]"
  have g2: "rate_get ?r (Some ''USD'') = Some (PyInt 5)" by (simp add: rate_get_def)
  have all2: "\<forall>t \<in> set [''CZK'']. \<forall>v. map_of ?r t = Some v \<longrightarrow> (\<exists>ft. to_float v = Inr ft)"
    using rounding_example_values(2) by simp
  from convert_currency_outputs [OF n(2) g2 rounding_example_values(1) z(2) all2]
  obtain res2 where r2: "convert_currency ?r (PyFloat (Finite 1)) (Some ''USD'') [''CZK'']
        = Inr res2"
    and p2: "\<forall>t v. t \<in> set [''CZK''] \<and> map_of ?r t = Some v \<longrightarrow>
           (\<exists>ft. to_float v = Inr ft
              \<and> map_of (outputs res2) t
                  = Some (py_round2 (float_mul (float_div (Finite 1) (Finite 5)) ft)))"
    by blast
  from p2 rounding_example_values(2,3)
  have o5: "map_of (outputs res2) ''CZK'' = Some (to_double (3 / 100))"
    by fastforce
  from n g spec_example_values(1) r o1 o2 o3 o4 r2 o5 rounding_example_values(4)
  show ?thesis by blast
qed

text \<open>
  Claim C9, as amended. \<open>convert_currency\<close> does not check the source. For a
  \<open>float\<close> amount that is not negative it returns a result exactly when the source
  has a rate in \<open>currency_rates\<close> and, for every target that has a rate, the rate of
  the source has a float that is not zero and the rate of the target has a float
  (an \<open>int\<close> too large for a float raises \<open>OverflowError\<close>). So a rate of zero, or
  one too large, does no harm when no target has a rate: the arithmetic is reached
  only for a target that has one. A source without a rate gives \<open>KeyError\<close>, not the
  \<open>ValueError\<close> of a bad amount.
\<close>

theorem convert_currency_completes_iff:
  assumes "\<not> float_lt_zero a"
  shows "((\<exists>res. convert_currency currency_rates (PyFloat a) source targets = Inr res) \<longleftrightarrow>
          (\<exists>rs. rate_get currency_rates source = Some rs \<and>
             (\<forall>t \<in> set targets. \<forall>v. map_of currency_rates t = Some v \<longrightarrow>
                (\<exists>fs. to_float rs = Inr fs \<and> fs \<noteq> Finite 0) \<and> (\<exists>ft. to_float v = Inr ft))))
       \<and> (rate_get currency_rates source = None \<longrightarrow>
            convert_currency currency_rates (PyFloat a) source targets = Inl KeyError)"
proof (cases "rate_get currency_rates source")
  case None
  with assms show ?thesis by (simp add: convert_currency_def)
next
  case (Some rs)
  have "(\<exists>res. convert_currency currency_rates (PyFloat a) source targets = Inr res)
      \<longleftrightarrow> (\<exists>out'. convert_loop currency_rates a rs targets [] = Inr out')"
    using assms Some by (auto simp: convert_currency_def split: sum.splits)
  with convert_loop_Inr_iff [of currency_rates a rs targets "[]"] Some show ?thesis
    by simp
qed

theorem convert_currency_completes_iff_witness:
  "\<not> float_lt_zero (Finite 300)
   \<and> (\<exists>res. convert_currency spec_rates (PyFloat (Finite 300)) (Some ''USD'') [''CZK''] = Inr res)
   \<and> (\<exists>res. convert_currency [(''USD'', PyInt 0), (''CZK'', PyInt 25)]
               (PyFloat (Finite 300)) (Some ''USD'') [''EUR''] = Inr res)
   \<and> \<not> (\<exists>res. convert_currency [(''USD'', PyInt 0), (''CZK'', PyInt 25)]
               (PyFloat (Finite 300)) (Some ''USD'') [''CZK''] = Inr res)
   \<and> \<not> (\<exists>res. convert_currency [(''USD'', PyInt (2 ^ 1024)), (''CZK'', PyInt 25)]
               (PyFloat (Finite 300)) (Some ''USD'') [''CZK''] = Inr res)
   \<and> convert_currency spec_rates (PyFloat (Finite 300)) (Some ''XXX'') [''CZK''] = Inl KeyError"
proof -
  have h: "\<not> float_lt_zero (Finite 300)" by simp
  have f: "to_float (PyInt 0) = Inr (Finite 0)" "to_float (PyInt 25) = Inr (Finite 25)"
    "to_float (PyFloat (Finite (3 / 2))) = Inr (Finite (3 / 2))"
    "to_float (PyInt (2 ^ 1024)) = Inl OverflowError"
    by code_simp+
  show ?thesis
    using convert_currency_completes_iff [OF h, of spec_rates "Some ''USD''" "[''CZK'']"]
      convert_currency_completes_iff
        [OF h, of "[(''USD'', PyInt 0), (''CZK'', PyInt 25)]" "Some ''USD''" "[''EUR'']"]
      convert_currency_completes_iff
        [OF h, of "[(''USD'', PyInt 0), (''CZK'', PyInt 25)]" "Some ''USD''" "[''CZK'']"]
      convert_currency_completes_iff
        [OF h, of "[(''USD'', PyInt (2 ^ 1024)), (''CZK'', PyInt 25)]" "Some ''USD''" "[''CZK'']"]
      convert_currency_completes_iff [OF h, of spec_rates "Some ''XXX''" "[''CZK'']"]
      f
    by (simp add: rate_get_def spec_rates_def)
qed

text \<open>
  The claim C9 as first stated (a result exactly when the source has a non-zero rate)
  fails: with a rate of zero for the source and a target that has no rate, the target
  is skipped before any division and the call returns a result.
\<close>

theorem convert_currency_zero_rate_counterexample:
  "rate_get [(''USD'', PyFloat (Finite 0))] (Some ''USD'') = Some (PyFloat (Finite 0))
   \<and> convert_currency [(''USD'', PyFloat (Finite 0))] (PyFloat (Finite 1)) (Some ''USD'') [''CZK'']
       = Inr \<lparr>input_amount = Finite 1, input_currency = Some ''USD'', outputs = []\<rparr>"
  by code_simp

section \<open>Properties of the date setter\<close>

text \<open>Every exception that the \<open>try\<close> block can raise is one the setter handles.\<close>

lemma check_date_handled: "check_date cy d = Inl e \<Longrightarrow> date_handled e"
  by (auto simp: check_date_def split: if_splits list.splits option.splits)

lemma date_setter_total: "\<exists>s. date_setter cy date = Inr s"
  by (auto simp: date_setter_def dest: check_date_handled split: option.splits sum.splits)

lemma fails_validation_check_date:
  assumes "fails_validation cy d"
  shows "\<exists>e. check_date cy d = Inl e"
proof (cases "length d = 10")
  case False
  then show ?thesis by (simp add: check_date_def)
next
  case len: True
  show ?thesis
  proof (cases "\<exists>a b c. py_split CHR ''/'' d = [a, b, c]")
    case False
    then show ?thesis
      by (auto simp: check_date_def split: list.splits)
  next
    case True
    then obtain pday pmonth pyear where sp: "py_split CHR ''/'' d = [pday, pmonth, pyear]"
      by blast
    show ?thesis
    proof (cases "py_int pyear")
      case None
      with sp len show ?thesis by (simp add: check_date_def)
    next
      case (Some yy)
      note y = this
      show ?thesis
      proof (cases "py_int pmonth")
        case None
        with sp len y show ?thesis by (simp add: check_date_def)
      next
        case (Some mm)
        note m = this
        show ?thesis
        proof (cases "py_int pday")
          case None
          with sp len y m show ?thesis by (simp add: check_date_def)
        next
          case (Some dd)
          from assms len sp y m Some
          have bad: "yy < 2000 \<or> cy < yy \<or> mm < 1 \<or> 12 < mm \<or> dd < 1 \<or> days_in_month yy mm < dd"
            by (simp add: fails_validation_def)
          have "check_date cy d =
             (if \<not> (2000 \<le> yy \<and> yy \<le> cy)
                  then Inl (DateError (''Invalid date format: Year must be between 2000 and ''
                                   @ py_str cy @ ''.''))
                  else if \<not> (1 \<le> mm \<and> mm \<le> 12)
                  then Inl (DateError ''Invalid date format: Month must be between 01 and 12.'')
                  else if mm = 2 \<and> dd > 28
                  then Inl (DateError ''Invalid date format: Day out of range.'')
                  else if \<not> (1 \<le> dd \<and> dd \<le> 31)
                  then Inl (DateError ''Invalid date format: Day out of range.'')
                  else if dd = 31 \<and> mm \<notin> {1, 3, 5, 7, 8, 10, 12}
                  then Inl (DateError ''Invalid date format: Day out of range.'')
                  else Inr (pyear @ ''-'' @ pmonth @ ''-'' @ pday))"
            using len sp y m Some by (simp add: check_date_def)
          moreover from bad have "\<not> (2000 \<le> yy \<and> yy \<le> cy) \<or> \<not> (1 \<le> mm \<and> mm \<le> 12)
              \<or> (mm = 2 \<and> dd > 28) \<or> \<not> (1 \<le> dd \<and> dd \<le> 31)
              \<or> (dd = 31 \<and> mm \<notin> {1, 3, 5, 7, 8, 10, 12})"
            by (auto simp: days_in_month_def split: if_splits)
          ultimately show ?thesis by auto
        qed
      qed
    qed
  qed
qed

text \<open>
  Claim C6. The setter never raises: for every input, \<open>None\<close> or a string, it
  stores a value. \<open>None\<close> gives \<open>"latest"\<close>. Every input that fails validation
  as the specification lists it (wrong length, wrong delimiter, a field that is no
  number, year, month or day out of range) gives \<open>"latest"\<close>, and so does every
  input at which the \<open>try\<close> block raises anything. Among the inputs of the
  witness is a year followed by the separator U+001C, a field that \<open>int\<close> does not
  read as a number.
\<close>

theorem date_setter_never_raises:
  "(\<exists>s. date_setter cy date = Inr s)
   \<and> date_setter cy None = Inr ''latest''
   \<and> (\<forall>d. date = Some d \<and> fails_validation cy d \<longrightarrow> date_setter cy date = Inr ''latest'')
   \<and> (\<forall>d e. date = Some d \<and> check_date cy d = Inl e \<longrightarrow> date_setter cy date = Inr ''latest'')"
proof (intro conjI allI impI)
  show "\<exists>s. date_setter cy date = Inr s" by (rule date_setter_total)
  show "date_setter cy None = Inr ''latest''" by (simp add: date_setter_def)
  fix d assume a: "date = Some d \<and> fails_validation cy d"
  then obtain e where e: "check_date cy d = Inl e"
    using fails_validation_check_date by blast
  with check_date_handled [OF e] a show "date_setter cy date = Inr ''latest''"
    by (simp add: date_setter_def)
next
  fix d e assume b: "date = Some d \<and> check_date cy d = Inl e"
  then have "date_handled e" using check_date_handled by blast
  with b show "date_setter cy date = Inr ''latest''"
    by (simp add: date_setter_def)
qed

theorem date_setter_never_raises_witness:
  "fails_validation 2017 ''31/04/2016'' \<and> date_setter 2017 (Some ''31/04/2016'') = Inr ''latest''
 \<and> fails_validation 2017 ''1/4/2016'' \<and> date_setter 2017 (Some ''1/4/2016'') = Inr ''latest''
 \<and> fails_validation 2017 ''01-04-2016'' \<and> date_setter 2017 (Some ''01-04-2016'') = Inr ''latest''
 \<and> fails_validation 2017 ''ab/04/2016'' \<and> date_setter 2017 (Some ''ab/04/2016'') = Inr ''latest''
 \<and> fails_validation 2017 ''01/04/1999'' \<and> date_setter 2017 (Some ''01/04/1999'') = Inr ''latest''
 \<and> fails_validation 2017 ''01/04/2018'' \<and> date_setter 2017 (Some ''01/04/2018'') = Inr ''latest''
 \<and> fails_validation 2017 ''01/13/2016'' \<and> date_setter 2017 (Some ''01/13/2016'') = Inr ''latest''
 \<and> fails_validation 2017 ''30/02/2016'' \<and> date_setter 2017 (Some ''30/02/2016'') = Inr ''latest''
 \<and> fails_validation 2017 ''29/02/2015'' \<and> date_setter 2017 (Some ''29/02/2015'') = Inr ''latest''
 \<and> fails_validation 2017 ''00/04/2016'' \<and> date_setter 2017 (Some ''00/04/2016'') = Inr ''latest''
 \<and> fails_validation 2017 (''1/02/2016'' @ [CHR 0x1C])
 \<and> date_setter 2017 (Some (''1/02/2016'' @ [CHR 0x1C])) = Inr ''latest''
 \<and> (\<exists>s. date_setter 2017 (Some ''01/04/2017'') = Inr s)"
proof -
  have f: "fails_validation 2017 ''31/04/2016''" "fails_validation 2017 ''1/4/2016''"
    "fails_validation 2017 ''01-04-2016''" "fails_validation 2017 ''ab/04/2016''"
    "fails_validation 2017 ''01/04/1999''" "fails_validation 2017 ''01/04/2018''"
    "fails_validation 2017 ''01/13/2016''" "fails_validation 2017 ''30/02/2016''"
    "fails_validation 2017 ''29/02/2015''" "fails_validation 2017 ''00/04/2016''"
    "fails_validation 2017 (''1/02/2016'' @ [CHR 0x1C])"
    by (simp_all add: fails_validation_def py_int_def py_strip_def py_isspace_def py_isdigit_def
        digit_value_def days_in_month_def is_leap_def)
  show ?thesis
    using f date_setter_never_raises [of 2017 "Some ''31/04/2016''"] date_setter_never_raises [of 2017 "Some ''1/4/2016''"]
      date_setter_never_raises [of 2017 "Some ''01-04-2016''"] date_setter_never_raises [of 2017 "Some ''ab/04/2016''"]
      date_setter_never_raises [of 2017 "Some ''01/04/1999''"] date_setter_never_raises [of 2017 "Some ''01/04/2018''"]
      date_setter_never_raises [of 2017 "Some ''01/13/2016''"] date_setter_never_raises [of 2017 "Some ''30/02/2016''"]
      date_setter_never_raises [of 2017 "Some ''29/02/2015''"] date_setter_never_raises [of 2017 "Some ''00/04/2016''"]
      date_setter_never_raises [of 2017 "Some (''1/02/2016'' @ [CHR 0x1C])"]
      date_setter_never_raises [of 2017 "Some ''01/04/2017''"]
    by simp
qed

text \<open>
  The leap-day branch of the setter tests \<open>year in range(2000, year)\<close>, a range that
  ends before \<open>year\<close>, so the test is false for every year: every input
  \<open>29/02/YYYY\<close> falls back to \<open>"latest"\<close>, whatever the current year.
\<close>

lemma year_not_before_itself: "(y::int) \<notin> set [yr \<leftarrow> [2000 .. y - 1]. P yr]"
  by simp

lemma py_int_29: "py_int ''29'' = Some 29"
  by (simp add: py_int_def py_strip_def py_isspace_def py_isdigit_def digit_value_def)

lemma py_int_02: "py_int ''02'' = Some 2"
  by (simp add: py_int_def py_strip_def py_isspace_def py_isdigit_def digit_value_def)

lemma py_split_feb_29:
  "py_split CHR ''/'' (''29/02/'' @ y) = ''29'' # ''02'' # py_split CHR ''/'' y"
  by simp

lemma py_split_nonempty: "py_split sep s \<noteq> []"
  by (induction s) (auto split: list.splits)

lemma check_date_feb_29: "\<exists>e. check_date cy (''29/02/'' @ y) = Inl e"
proof (cases "length (''29/02/'' @ y) = 10")
  case False
  then show ?thesis by (simp add: check_date_def)
next
  case True
  show ?thesis
  proof (cases "py_split CHR ''/'' y")
    case Nil
    with py_split_nonempty show ?thesis by blast
  next
    case (Cons pyear more)
    show ?thesis
    proof (cases more)
      case Nil
      with Cons True show ?thesis
        unfolding check_date_def py_split_feb_29
        by (simp add: py_int_29 py_int_02 split: option.splits)
    next
      case (Cons a list)
      with \<open>py_split CHR ''/'' y = pyear # more\<close> True show ?thesis
        unfolding check_date_def py_split_feb_29 by simp
    qed
  qed
qed

lemma date_setter_feb_29: "date_setter cy (Some (''29/02/'' @ y)) = Inr ''latest''"
proof -
  obtain e where e: "check_date cy (''29/02/'' @ y) = Inl e"
    using check_date_feb_29 by blast
  with check_date_handled [OF e] show ?thesis by (simp add: date_setter_def)
qed

text \<open>
  Claim C1 says that \<open>29/02/YYYY\<close> is accepted for a year from 2000 on that is
  divisible by 4 and lies before the current year. The setter does not do so: in
  2017, the input \<open>29/02/2016\<close> meets every condition of the claim and the stored
  date is \<open>"latest"\<close>.
\<close>

theorem date_setter_leap_day_rejected:
  "py_int ''2016'' = Some 2016
   \<and> (2016::int) mod 4 = 0 \<and> (2000::int) \<le> 2016 \<and> (2016::int) < 2017
   \<and> date_setter 2017 (Some ''29/02/2016'') = Inr ''latest''"
  by (simp add: date_setter_def check_date_def py_int_def py_strip_def py_isspace_def py_isdigit_def digit_value_def)

section \<open>Properties of the archive\<close>

text \<open>
  Reading a JSON object gives a dictionary with distinct string keys, and writing
  such a dictionary and reading it again gives it back.
\<close>

lemma update_fresh: "k \<notin> fst ` set al \<Longrightarrow> AList.update k v al = al @ [(k, v)]"
  by (induction al) auto

lemma json_load_append:
  "json_load (xs @ ys) = fold (\<lambda>(k, v). AList.update (KStr k) v) ys (json_load xs)"
  by (simp add: json_load_def)

lemma json_load_snoc: "json_load (xs @ [(k, v)]) = AList.update (KStr k) v (json_load xs)"
  by (simp add: json_load_def)

lemma json_load_keys: "fst ` set (json_load ms) = KStr ` fst ` set ms"
proof (induction ms rule: rev_induct)
  case Nil
  then show ?case by (simp add: json_load_def)
next
  case (snoc x xs)
  obtain k v where x: "x = (k, v)" by (cases x)
  show ?case unfolding x json_load_snoc
    using snoc by (simp add: AList.dom_update image_Un)
qed

lemma json_load_distinct: "distinct (map fst (json_load ms))"
proof (induction ms rule: rev_induct)
  case Nil
  then show ?case by (simp add: json_load_def)
next
  case (snoc x xs)
  obtain k v where x: "x = (k, v)" by (cases x)
  show ?case unfolding x json_load_snoc
    using snoc by (simp add: AList.distinct_update)
qed

lemma json_load_no_int_key: "KInt i \<notin> fst ` set (json_load ms)"
  by (auto simp: json_load_keys)

lemma json_load_dump:
  assumes "distinct (map fst d)" and "\<forall>k \<in> fst ` set d. \<exists>s. k = KStr s"
  shows "json_load (json_dump d) = d"
  using assms
proof (induction d rule: rev_induct)
  case Nil
  then show ?case by (simp add: json_load_def json_dump_def)
next
  case (snoc x xs)
  obtain k v where x: "x = (k, v)" by (cases x)
  from snoc.prems x obtain s where k: "k = KStr s" by auto
  from snoc.prems have ih: "json_load (json_dump xs) = xs"
    by (intro snoc.IH) auto
  from snoc.prems x have fresh: "k \<notin> fst ` set xs" by auto
  have "json_dump (xs @ [x]) = json_dump xs @ [(s, v)]"
    by (simp add: json_dump_def x k)
  then have "json_load (json_dump (xs @ [x])) = AList.update (KStr s) v xs"
    by (simp add: json_load_snoc ih)
  with fresh k x show ?case by (simp add: update_fresh)
qed

lemma json_load_dump_load: "json_load (json_dump (json_load ms)) = json_load ms"
  by (rule json_load_dump) (auto simp: json_load_distinct json_load_keys)

lemma loaded_archive_keys: "\<forall>k \<in> fst ` set (loaded_archive w). \<exists>s. k = KStr s"
proof (cases "archive_file w")
  case (Content members)
  then have "fst ` set (loaded_archive w) = KStr ` fst ` set members"
    by (simp add: loaded_archive_def json_load_keys)
  then show ?thesis by blast
qed (simp_all add: loaded_archive_def)

lemma loaded_archive_distinct: "distinct (map fst (loaded_archive w))"
  by (auto simp: loaded_archive_def json_load_distinct split: json_file.splits)

lemma loaded_archive_dump: "json_load (json_dump (loaded_archive w)) = loaded_archive w"
  by (rule json_load_dump) (use loaded_archive_keys loaded_archive_distinct in auto)

lemma archive_rates_reload:
  assumes "writable e"
  shows "loaded_archive (archive_rates e data w)
           = AList.update (KStr (py_str (timestamp data))) (rates data) (loaded_archive w)"
proof -
  have fresh: "KInt (timestamp data) \<notin> fst ` set (loaded_archive w)"
    using loaded_archive_keys by fastforce
  have "json_dump (AList.update (KInt (timestamp data)) (rates data) (loaded_archive w))
          = json_dump (loaded_archive w) @ [(py_str (timestamp data), rates data)]"
    by (simp add: update_fresh [OF fresh] json_dump_def)
  then have "json_load (json_dump (AList.update (KInt (timestamp data)) (rates data) (loaded_archive w)))
          = AList.update (KStr (py_str (timestamp data))) (rates data) (loaded_archive w)"
    by (simp add: json_load_snoc loaded_archive_dump)
  with assms show ?thesis
    by (simp add: archive_rates_def loaded_archive_def [of "_\<lparr>archive_file := _\<rparr>"])
qed

text \<open>
  Claim C8. When the archive file can be written, the archive read back after
  \<open>archive_rates\<close> has the rates of the snapshot under the decimal string of its
  timestamp, has under every other key what the archive read before had there (an
  unreadable or malformed file counting as empty), and still has every key it had:
  no entry under another key is removed or changed.
\<close>

theorem archive_rates_frame:
  assumes "writable e"
  shows "map_of (loaded_archive (archive_rates e data w)) (KStr (py_str (timestamp data)))
           = Some (rates data)
       \<and> (\<forall>k. k \<noteq> KStr (py_str (timestamp data)) \<longrightarrow>
             map_of (loaded_archive (archive_rates e data w)) k = map_of (loaded_archive w) k)
       \<and> (\<forall>k. k \<in> fst ` set (loaded_archive w) \<longrightarrow>
             k \<in> fst ` set (loaded_archive (archive_rates e data w)))
       \<and> (\<exists>members. archive_file (archive_rates e data w) = Content members)"
  unfolding archive_rates_reload [OF assms]
  using assms by (auto simp: AList.update_conv' AList.dom_update archive_rates_def)

text \<open>Evaluations of the example data, used by the witnesses below.\<close>

lemma yesterday_key_date:
  "saved_date example_env (KStr ''1499904000'') = Inr \<lparr>year = 2017, month = 7, day = 13\<rparr>"
  by (simp add: example_env_def example_dates_def)

lemma example_key_date:
  "saved_date example_env (KStr ''1500000000'') = Inr \<lparr>year = 2017, month = 7, day = 14\<rparr>"
  by (simp add: example_env_def example_dates_def)



lemma example_snapshot_key: "py_str 1500030000 = ''1500030000''"
  by code_simp

lemma example_members_loaded:
  "json_load [(''1499904000'', [(''CZK'', PyInt 22)]), (''1500000000'', [(''CZK'', PyInt 24)])]
      = [(KStr ''1499904000'', [(''CZK'', PyInt 22)])] @ (KStr ''1500000000'', [(''CZK'', PyInt 24)]) # []"
  by (simp add: json_load_def)

lemma yesterday_world_loaded:
  "loaded_archive yesterday_world = [(KStr ''1499904000'', [(''CZK'', PyInt 22)])]"
  by (simp add: loaded_archive_def yesterday_world_def json_load_def)

lemma example_world_loaded:
  "loaded_archive example_world
     = [(KStr ''1499904000'', [(''CZK'', PyInt 22)]), (KStr ''1500000000'', [(''CZK'', PyInt 24)])]"
  by (simp add: loaded_archive_def example_world_def json_load_def)

theorem archive_rates_frame_witness:
  "writable example_env
   \<and> map_of (loaded_archive (archive_rates example_env example_snapshot example_world))
        (KStr ''1500030000'') = Some [(''CZK'', PyInt 25)]
   \<and> map_of (loaded_archive (archive_rates example_env example_snapshot example_world))
        (KStr ''1499904000'') = Some [(''CZK'', PyInt 22)]
   \<and> map_of (loaded_archive (archive_rates example_env example_snapshot example_world))
        (KStr ''1500000000'') = Some [(''CZK'', PyInt 24)]"
proof -
  have wr: "writable example_env" by (simp add: example_env_def)
  from archive_rates_frame [OF wr, of example_snapshot example_world] wr show ?thesis
    by (simp add: example_snapshot_def example_snapshot_key example_world_loaded)
qed


section \<open>Properties of \<open>get_rates\<close>\<close>


lemma search_archive_skip:
  assumes "saved_date e k = Inr d'" and "d' \<noteq> d"
  shows "search_archive e d ((k, v) # rest) = search_archive e d rest"
proof -
  from assms(2) have "\<not> (year d = year d' \<and> month d = month d' \<and> day d = day d')"
    by (auto intro: date.equality)
  with assms(1) show ?thesis by auto
qed

lemma search_archive_hit:
  assumes "saved_date e k = Inr d"
  shows "search_archive e d ((k, v) # rest) = Inr (Some v)"
  using assms by simp


lemma search_archive_first_match:
  assumes "\<forall>(k, v) \<in> set pre. \<exists>d'. saved_date e k = Inr d' \<and> d' \<noteq> d"
    and "saved_date e key = Inr d"
  shows "search_archive e d (pre @ (key, r) # post) = Inr (Some r)"
  using assms
proof (induction pre)
  case Nil
  then show ?case by (simp add: search_archive_hit)
next
  case (Cons p pre)
  obtain k v where p: "p = (k, v)" by (cases p)
  from Cons.prems(1) p obtain d' where d': "saved_date e k = Inr d'" "d' \<noteq> d" by auto
  from Cons.prems have "search_archive e d (pre @ (key, r) # post) = Inr (Some r)"
    by (intro Cons.IH) auto
  then show ?case unfolding p append_Cons by (simp only: search_archive_skip [OF d'])
qed

lemma search_archive_no_match:
  assumes "\<forall>(k, v) \<in> set al. \<exists>d'. saved_date e k = Inr d' \<and> d' \<noteq> d"
  shows "search_archive e d al = Inr None"
  using assms
proof (induction al)
  case Nil
  then show ?case by simp
next
  case (Cons p al)
  obtain k v where p: "p = (k, v)" by (cases p)
  from Cons.prems(1) p obtain d' where d': "saved_date e k = Inr d'" "d' \<noteq> d" by auto
  from Cons.prems have "search_archive e d al = Inr None"
    by (intro Cons.IH) auto
  then show ?case unfolding p by (simp only: search_archive_skip [OF d'])
qed


lemma loaded_archive_requests [simp]:
  "loaded_archive (w\<lparr>requests := rs\<rparr>) = loaded_archive w"
  by (simp add: loaded_archive_def)



text \<open>
  Claim C2 says that with the date \<open>"latest"\<close> the archive never serves the rates.
  It does: on 14 July 2017, with an archive that holds a snapshot of that day,
  \<open>get_rates\<close> returns the archived rates (24 for CZK) and sends no request,
  although the provider would answer with newer rates (25 for CZK).
\<close>

theorem get_rates_latest_served_from_archive:
  "get_rates example_env ''latest'' example_world = (Inr [(''CZK'', PyInt 24)], example_world)
   \<and> requests example_world = []
   \<and> provider example_env Latest_json = Body example_snapshot
   \<and> rates example_snapshot = [(''CZK'', PyInt 25)]"
proof -
  have "search_archive example_env \<lparr>year = 2017, month = 7, day = 14\<rparr>
          ([(KStr ''1499904000'', [(''CZK'', PyInt 22)])]
             @ (KStr ''1500000000'', [(''CZK'', PyInt 24)]) # [])
        = Inr (Some [(''CZK'', PyInt 24)])"
    by (rule search_archive_first_match) (simp_all add: yesterday_key_date example_key_date)
  moreover have "today example_env = \<lparr>year = 2017, month = 7, day = 14\<rparr>"
    "provider example_env Latest_json = Body example_snapshot"
    by (simp_all add: example_env_def)
  ultimately show ?thesis
    by (simp add: get_rates_def example_world_def example_snapshot_def example_members_loaded
             del: search_archive.simps)
qed

text \<open>
  Claim C2, as amended. With the date \<open>"latest"\<close>, \<open>get_rates\<close> looks for the
  current day. If the archive is readable and holds an entry whose key the library
  converts to the current day, every entry before it having a key converted to
  another day, the rates of that entry are returned and nothing changes: no
  request is sent. If every key of the archive read (an unreadable or malformed
  file counting as empty) is converted to a day other than the current one, exactly
  one request is sent, to the route of the latest rates; a provider that answers
  with an HTTP error ends the program; the rates of a provider that answers with a
  snapshot are returned and the snapshot is handed to \<open>archive_rates\<close>, so that
  with a writable file the archive read afterwards is the one read before with the
  snapshot stored under the decimal string of its timestamp.
\<close>

theorem get_rates_latest:
  "(archive_file w = Content members \<and> json_load members = pre @ (key, r) # post
      \<and> (\<forall>(k, v) \<in> set pre. \<exists>d'. saved_date e k = Inr d' \<and> d' \<noteq> today e)
      \<and> saved_date e key = Inr (today e)
    \<longrightarrow> get_rates e ''latest'' w = (Inr r, w))
   \<and> ((\<forall>(k, v) \<in> set (loaded_archive w). \<exists>d'. saved_date e k = Inr d' \<and> d' \<noteq> today e)
      \<longrightarrow> (provider e Latest_json = HTTPError code
             \<longrightarrow> get_rates e ''latest'' w
                   = (Inl (SystemExit 1), w\<lparr>requests := requests w @ [Latest_json]\<rparr>))
          \<and> (provider e Latest_json = Body data
             \<longrightarrow> get_rates e ''latest'' w
                   = (Inr (rates data),
                      archive_rates e data (w\<lparr>requests := requests w @ [Latest_json]\<rparr>))
               \<and> requests (snd (get_rates e ''latest'' w)) = requests w @ [Latest_json]
               \<and> (writable e \<longrightarrow>
                    loaded_archive (snd (get_rates e ''latest'' w))
                      = AList.update (KStr (py_str (timestamp data))) (rates data)
                          (loaded_archive w))))"
proof (intro conjI impI)
  assume a: "archive_file w = Content members \<and> json_load members = pre @ (key, r) # post
        \<and> (\<forall>(k, v) \<in> set pre. \<exists>d'. saved_date e k = Inr d' \<and> d' \<noteq> today e)
        \<and> saved_date e key = Inr (today e)"
  then have "search_archive e (today e) (json_load members) = Inr (Some r)"
    by (simp add: search_archive_first_match)
  with a show "get_rates e ''latest'' w = (Inr r, w)"
    by (simp add: get_rates_def)
next
  assume a: "\<forall>(k, v) \<in> set (loaded_archive w). \<exists>d'. saved_date e k = Inr d' \<and> d' \<noteq> today e"
  then have s: "search_archive e (today e) (loaded_archive w) = Inr None"
    by (rule search_archive_no_match)
  have g: "get_rates e ''latest'' w = download_and_archive e ''latest'' w"
    using s by (cases "archive_file w") (simp_all add: get_rates_def loaded_archive_def)
  {
    assume "provider e Latest_json = HTTPError code"
    then show "get_rates e ''latest'' w
                 = (Inl (SystemExit 1), w\<lparr>requests := requests w @ [Latest_json]\<rparr>)"
      unfolding g by (simp add: download_and_archive_def download_rates_def route_of_def)
  }
  {
    assume b: "provider e Latest_json = Body data"
    then show r: "get_rates e ''latest'' w
                 = (Inr (rates data),
                    archive_rates e data (w\<lparr>requests := requests w @ [Latest_json]\<rparr>))"
      unfolding g by (simp add: download_and_archive_def download_rates_def route_of_def)
    show "requests (snd (get_rates e ''latest'' w)) = requests w @ [Latest_json]"
      unfolding r by (simp add: archive_rates_def Let_def)
    assume "writable e"
    then show "loaded_archive (snd (get_rates e ''latest'' w))
                 = AList.update (KStr (py_str (timestamp data))) (rates data) (loaded_archive w)"
      unfolding r by (simp add: archive_rates_reload)
  }
qed

theorem get_rates_latest_witness:
  "archive_file example_world
      = Content [(''1499904000'', [(''CZK'', PyInt 22)]), (''1500000000'', [(''CZK'', PyInt 24)])]
   \<and> saved_date example_env (KStr ''1499904000'') = Inr \<lparr>year = 2017, month = 7, day = 13\<rparr>
   \<and> saved_date example_env (KStr ''1500000000'') = Inr (today example_env)
   \<and> get_rates example_env ''latest'' example_world = (Inr [(''CZK'', PyInt 24)], example_world)
   \<and> loaded_archive yesterday_world = [(KStr ''1499904000'', [(''CZK'', PyInt 22)])]
   \<and> provider example_env Latest_json = Body example_snapshot
   \<and> writable example_env
   \<and> fst (get_rates example_env ''latest'' yesterday_world) = Inr [(''CZK'', PyInt 25)]
   \<and> requests (snd (get_rates example_env ''latest'' yesterday_world)) = [Latest_json]
   \<and> loaded_archive (snd (get_rates example_env ''latest'' yesterday_world))
       = [(KStr ''1499904000'', [(''CZK'', PyInt 22)]), (KStr ''1500030000'', [(''CZK'', PyInt 25)])]"
proof -
  have t: "today example_env = \<lparr>year = 2017, month = 7, day = 14\<rparr>"
    by (simp add: example_env_def)
  have a: "archive_file example_world
      = Content [(''1499904000'', [(''CZK'', PyInt 22)]), (''1500000000'', [(''CZK'', PyInt 24)])]"
    by (simp add: example_world_def)
  have p: "provider example_env Latest_json = Body example_snapshot"
    by (simp add: example_env_def)
  have wr: "writable example_env" by (simp add: example_env_def)
  have h: "archive_file example_world
             = Content [(''1499904000'', [(''CZK'', PyInt 22)]), (''1500000000'', [(''CZK'', PyInt 24)])]
      \<and> json_load [(''1499904000'', [(''CZK'', PyInt 22)]), (''1500000000'', [(''CZK'', PyInt 24)])]
             = [(KStr ''1499904000'', [(''CZK'', PyInt 22)])]
                 @ (KStr ''1500000000'', [(''CZK'', PyInt 24)]) # []
      \<and> (\<forall>(k, v) \<in> set [(KStr ''1499904000'', [(''CZK'', PyInt 22)])].
             \<exists>d'. saved_date example_env k = Inr d' \<and> d' \<noteq> today example_env)
      \<and> saved_date example_env (KStr ''1500000000'') = Inr (today example_env)"
    using a example_members_loaded yesterday_key_date example_key_date t by simp
  have hit: "get_rates example_env ''latest'' example_world
               = (Inr [(''CZK'', PyInt 24)], example_world)"
    using get_rates_latest [where w = example_world and e = example_env,
                            THEN conjunct1, THEN mp, OF h] .
  have prior: "\<forall>(k, v) \<in> set (loaded_archive yesterday_world).
                 \<exists>d'. saved_date example_env k = Inr d' \<and> d' \<noteq> today example_env"
    by (simp add: yesterday_world_loaded yesterday_key_date t)
  note m = get_rates_latest [where w = yesterday_world and e = example_env
                               and data = example_snapshot,
                             THEN conjunct2, THEN mp, OF prior, THEN conjunct2, THEN mp, OF p]
  from m have m1: "fst (get_rates example_env ''latest'' yesterday_world) = Inr [(''CZK'', PyInt 25)]"
    by (simp add: example_snapshot_def)
  from m have "requests (snd (get_rates example_env ''latest'' yesterday_world))
                 = requests yesterday_world @ [Latest_json]"
    by blast
  then have m2: "requests (snd (get_rates example_env ''latest'' yesterday_world)) = [Latest_json]"
    by (simp add: yesterday_world_def)
  from m wr have "loaded_archive (snd (get_rates example_env ''latest'' yesterday_world))
      = AList.update (KStr (py_str (timestamp example_snapshot))) (rates example_snapshot)
          (loaded_archive yesterday_world)"
    by blast
  also have "\<dots> = [(KStr ''1499904000'', [(''CZK'', PyInt 22)]),
                    (KStr ''1500030000'', [(''CZK'', PyInt 25)])]"
    by (simp add: yesterday_world_loaded example_snapshot_def example_snapshot_key)
  finally have m3: "loaded_archive (snd (get_rates example_env ''latest'' yesterday_world))
      = [(KStr ''1499904000'', [(''CZK'', PyInt 22)]), (KStr ''1500030000'', [(''CZK'', PyInt 25)])]" .
  note miss = m1 m2 m3
  from a yesterday_key_date example_key_date t hit yesterday_world_loaded p wr miss
  show ?thesis by simp
qed


end
